theory Spec2Isabelle
  imports Main "HOL-Library.Word"
begin

section \<open>Go strings and the library calls of the package\<close>

text \<open>
  A Go string is a sequence of bytes, here \<^typ>\<open>string\<close> (a list of 8-bit characters).
  The package calls three functions of Go's \<^verbatim>\<open>strings\<close> package. They are modelled on
  bytes, following the library's documented behaviour on UTF-8 text.
\<close>

subsection \<open>strings.Split with a one-byte separator\<close>

text \<open>
  \<^verbatim>\<open>strings.Split(s, sep)\<close> cuts \<open>s\<close> at every occurrence of \<open>sep\<close> and returns the
  pieces between them, so a string with \<open>n\<close> separators gives \<open>n + 1\<close> pieces and the
  empty string gives one empty piece. The package only passes the separators \<^verbatim>\<open>","\<close>
  and \<^verbatim>\<open>"@"\<close>, so the separator is one byte here. \<open>cur\<close> is the piece being read.
\<close>

fun Split_from :: "string \<Rightarrow> char \<Rightarrow> string \<Rightarrow> string list" where
  "Split_from [] sep cur = [cur]"
| "Split_from (c # cs) sep cur =
     (if c = sep then cur # Split_from cs sep [] else Split_from cs sep (cur @ [c]))"

definition Split :: "string \<Rightarrow> char \<Rightarrow> string list" where
  "Split s sep = Split_from s sep []"

subsection \<open>strings.TrimSpace\<close>

text \<open>
  \<^verbatim>\<open>strings.TrimSpace\<close> removes leading and trailing white space as Unicode defines it
  (\<^verbatim>\<open>unicode.IsSpace\<close>): the runes U+0009 to U+000D, U+0020, U+0085, U+00A0, U+1680,
  U+2000 to U+200A, U+2028, U+2029, U+202F, U+205F and U+3000. \<open>spaceRunes\<close> lists their
  UTF-8 encodings. A lead byte is never a continuation byte, so the string starts (ends)
  with a white-space rune exactly when it starts (ends) with one of these byte sequences.
\<close>

definition spaceRunes :: "string list" where
  "spaceRunes =
    [[CHR 0x09], [CHR 0x0A], [CHR 0x0B], [CHR 0x0C], [CHR 0x0D], [CHR 0x20],
     [CHR 0xC2, CHR 0x85], [CHR 0xC2, CHR 0xA0],
     [CHR 0xE1, CHR 0x9A, CHR 0x80],
     [CHR 0xE2, CHR 0x80, CHR 0x80], [CHR 0xE2, CHR 0x80, CHR 0x81],
     [CHR 0xE2, CHR 0x80, CHR 0x82], [CHR 0xE2, CHR 0x80, CHR 0x83],
     [CHR 0xE2, CHR 0x80, CHR 0x84], [CHR 0xE2, CHR 0x80, CHR 0x85],
     [CHR 0xE2, CHR 0x80, CHR 0x86], [CHR 0xE2, CHR 0x80, CHR 0x87],
     [CHR 0xE2, CHR 0x80, CHR 0x88], [CHR 0xE2, CHR 0x80, CHR 0x89],
     [CHR 0xE2, CHR 0x80, CHR 0x8A],
     [CHR 0xE2, CHR 0x80, CHR 0xA8], [CHR 0xE2, CHR 0x80, CHR 0xA9],
     [CHR 0xE2, CHR 0x80, CHR 0xAF], [CHR 0xE2, CHR 0x81, CHR 0x9F],
     [CHR 0xE3, CHR 0x80, CHR 0x80]]"

text \<open>
  The white space of ASCII, the bytes that the table \<^verbatim>\<open>asciiSpace\<close> of the package marks:
  tab, line feed, vertical tab, form feed, carriage return and space.
\<close>

definition asciiSpace :: "char \<Rightarrow> bool" where
  "asciiSpace c =
     (c = CHR 0x09 \<or> c = CHR 0x0A \<or> c = CHR 0x0B \<or> c = CHR 0x0C \<or> c = CHR 0x0D \<or>
      c = CHR 0x20)"

text \<open>\<open>startsWith s e\<close>: the non-empty byte sequence \<open>e\<close> is a prefix of \<open>s\<close>.\<close>

definition startsWith :: "string \<Rightarrow> string \<Rightarrow> bool" where
  "startsWith s e = (e \<noteq> [] \<and> take (length e) s = e)"

text \<open>
  \<^verbatim>\<open>TrimLeftFunc(s, unicode.IsSpace)\<close>: drop white-space runes from the front until the
  string starts with something else. \<open>runes\<close> is the list of encodings to drop.
\<close>

function trimLeftRunes :: "string list \<Rightarrow> string \<Rightarrow> string" where
  "trimLeftRunes runes s =
     (case find (startsWith s) runes of
        None \<Rightarrow> s
      | Some e \<Rightarrow> trimLeftRunes runes (drop (length e) s))"
  by pat_completeness auto
termination
proof (relation "measure (\<lambda>(runes, s). length s)")
  show "wf (measure (\<lambda>(runes, s). length s))"
    by simp
next
  fix runes :: "string list" and s e :: string
  assume "find (startsWith s) runes = Some e"
  then have "startsWith s e"
    by (auto simp: find_Some_iff)
  then have "e \<noteq> []" and "length e \<le> length s"
    unfolding startsWith_def by (auto simp: min_def dest: arg_cong [where f = length] split: if_splits)
  then show "((runes, drop (length e) s), (runes, s)) \<in> measure (\<lambda>(runes, s). length s)"
    by (cases e) auto
qed

declare trimLeftRunes.simps [simp del]

text \<open>
  \<^verbatim>\<open>TrimRightFunc\<close> does the same from the end: the reversed string loses the reversed
  encodings from its front.
\<close>

definition trimRightRunes :: "string list \<Rightarrow> string \<Rightarrow> string" where
  "trimRightRunes runes s = rev (trimLeftRunes (map rev runes) (rev s))"

definition TrimSpace :: "string \<Rightarrow> string" where
  "TrimSpace s = trimRightRunes spaceRunes (trimLeftRunes spaceRunes s)"

subsection \<open>strings.ToUpper\<close>

text \<open>
  \<^verbatim>\<open>strings.ToUpper\<close> maps every rune to its Unicode upper case. On ASCII that is
  \<^verbatim>\<open>c -= 'a' - 'A'\<close> for the bytes \<^verbatim>\<open>'a'\<close> to \<^verbatim>\<open>'z'\<close>. Two runes outside ASCII have an
  ASCII upper case: U+0131 (dotless i, bytes C4 B1) becomes \<^verbatim>\<open>'I'\<close> and U+017F (long s,
  bytes C5 BF) becomes \<^verbatim>\<open>'S'\<close>. Every other rune outside ASCII, and every byte that is
  not valid UTF-8, becomes a rune outside ASCII again; the model keeps its bytes as they
  are. The package only compares the result with ASCII literals, and that comparison
  is the same for the bytes kept and for the bytes Go writes.
\<close>

definition upperByte :: "char \<Rightarrow> char" where
  "upperByte c =
     (let n = (of_char c :: nat) in if 97 \<le> n \<and> n \<le> 122 then char_of (n - 32) else c)"

fun ToUpper :: "string \<Rightarrow> string" where
  "ToUpper [] = []"
| "ToUpper [c] = [upperByte c]"
| "ToUpper (c # d # cs) =
     (if c = CHR 0xC4 \<and> d = CHR 0xB1 then CHR ''I'' # ToUpper cs
      else if c = CHR 0xC5 \<and> d = CHR 0xBF then CHR ''S'' # ToUpper cs
      else upperByte c # ToUpper (d # cs))"

section \<open>Verbosity masks\<close>

text \<open>The struct \<^verbatim>\<open>OutputSettings\<close>: one flag for each level.\<close>

record OutputSettings =
  Info :: bool
  Error :: bool
  Timer :: bool

text \<open>
  \<^verbatim>\<open>parseVerbosityLevel\<close>: the token is trimmed and upper-cased; MUTE returns the zero
  struct at once, otherwise a struct with all flags set is built and then cut down for
  TIMER and for ERROR, in that order.
\<close>

definition parseVerbosityLevel :: "string \<Rightarrow> OutputSettings" where
  "parseVerbosityLevel val0 =
     (let val = ToUpper (TrimSpace val0) in
      if val = ''MUTE'' then \<lparr>Info = False, Error = False, Timer = False\<rparr>
      else
        let s = \<lparr>Info = True, Error = True, Timer = True\<rparr>;
            s = (if val = ''TIMER'' then s\<lparr>Info := False\<rparr> else s);
            s = (if val = ''ERROR'' then s\<lparr>Info := False, Timer := False\<rparr> else s)
        in s)"

section \<open>The package settings parser\<close>

text \<open>Indexing a slice out of range panics in Go; the panic is a value here.\<close>

datatype panic = IndexOutOfRange

text \<open>
  \<^verbatim>\<open>parsePackageName\<close> returns the trimmed name and a pointer to a mask, \<^verbatim>\<open>nil\<close> when
  the item has no \<^verbatim>\<open>"@"\<close>. The pointer is an \<^typ>\<open>OutputSettings option\<close>; the masks are
  never changed after they are built, so a pointer is modelled by the value it points to.
\<close>

definition parsePackageName :: "string \<Rightarrow> panic + (string \<times> OutputSettings option)" where
  "parsePackageName input =
     (let parsed = Split input (CHR ''@'') in
      case parsed of
        [] \<Rightarrow> Inl IndexOutOfRange
      | p0 # rest \<Rightarrow>
          (let name = TrimSpace p0 in
           if length parsed > 1 then Inr (name, Some (parseVerbosityLevel (parsed ! 1)))
           else Inr (name, None)))"

text \<open>The loop of \<^verbatim>\<open>parsePackageSettings\<close> over the items, \<open>all\<close> being the map built so far.\<close>

fun parsePackageSettings_loop ::
  "string list \<Rightarrow> OutputSettings \<Rightarrow> (string \<rightharpoonup> OutputSettings) \<Rightarrow>
   panic + (string \<rightharpoonup> OutputSettings)" where
  "parsePackageSettings_loop [] defaultOutputSettings all = Inr all"
| "parsePackageSettings_loop (item # items) defaultOutputSettings all =
     (case parsePackageName item of
        Inl e \<Rightarrow> Inl e
      | Inr (name, verbosity) \<Rightarrow>
          (let verbosity = (case verbosity of None \<Rightarrow> defaultOutputSettings | Some v \<Rightarrow> v)
           in parsePackageSettings_loop items defaultOutputSettings (all(name \<mapsto> verbosity))))"

definition parsePackageSettings ::
  "string \<Rightarrow> OutputSettings \<Rightarrow> panic + (string \<rightharpoonup> OutputSettings)" where
  "parsePackageSettings input defaultOutputSettings =
     parsePackageSettings_loop (Split input (CHR '','')) defaultOutputSettings Map.empty"

section \<open>The writer\<close>

text \<open>
  Modelled from the spec: the package variable \<^verbatim>\<open>muted\<close> is declared elsewhere in
  the package. The spec (section 3) calls it the constant fully-false mask that is the last
  fallback of the lookup.
\<close>

definition muted :: OutputSettings where
  "muted = \<lparr>Info = False, Error = False, Timer = False\<rparr>"

text \<open>
  A file is named by its descriptor; the bytes written so far to each file are the
  state the writer changes.
\<close>

type_synonym os_File = nat

record StandardWriter =
  ColorsEnabled :: bool
  Target :: os_File
  Settings :: "string \<rightharpoonup> OutputSettings"

text \<open>The process environment; \<^verbatim>\<open>os.Getenv\<close> gives the empty string for an unset variable.\<close>

type_synonym environ = "string \<rightharpoonup> string"

definition Getenv :: "environ \<Rightarrow> string \<Rightarrow> string" where
  "Getenv env key = (case env key of None \<Rightarrow> [] | Some v \<Rightarrow> v)"

definition NewStandardOutput :: "os_File \<Rightarrow> environ \<Rightarrow> panic + StandardWriter" where
  "NewStandardOutput file env =
     (let defaultOutputSettings = parseVerbosityLevel (Getenv env ''LOG_LEVEL'');
          logEnv = (if Getenv env ''LOG'' \<noteq> [] then Getenv env ''LOG'' else ''*'')
      in case parsePackageSettings logEnv defaultOutputSettings of
           Inl e \<Rightarrow> Inl e
         | Inr settings \<Rightarrow> Inr \<lparr>ColorsEnabled = True, Target = file, Settings = settings\<rparr>)"

definition LoggerSettings :: "StandardWriter \<Rightarrow> string \<Rightarrow> OutputSettings" where
  "LoggerSettings standardWriter p =
     (case Settings standardWriter p of
        Some settings \<Rightarrow> settings
      | None \<Rightarrow>
          (case Settings standardWriter ''*'' of
             Some settings \<Rightarrow> settings
           | None \<Rightarrow> muted))"

definition IsEnabled :: "StandardWriter \<Rightarrow> string \<Rightarrow> string \<Rightarrow> bool" where
  "IsEnabled standardWriter logger level =
     (let settings = LoggerSettings standardWriter logger in
      if level = ''INFO'' then Info settings
      else if level = ''ERROR'' then Error settings
      else if level = ''TIMER'' then Timer settings
      else False)"

section \<open>Records and their rendering\<close>

text \<open>
  Modelled from the spec: the struct \<^verbatim>\<open>Log\<close> and the type \<^verbatim>\<open>Attrs\<close> are declared elsewhere
  in the package. The spec (sections 3 and 6) gives the fields: Package, Level and
  Message are strings, Time a timestamp, Attrs an optional mapping from strings to
  values (\<^verbatim>\<open>nil\<close> allowed), ElapsedNano an integer the code converts to a
  \<^verbatim>\<open>time.Duration\<close> (64 bits, signed). The values of \<^verbatim>\<open>interface{}\<close> that are modelled are
  integers and strings. \<^verbatim>\<open>range\<close> visits a map in an order the runtime picks: the
  attributes are the list of pairs in the order of that visit.
\<close>

datatype gvalue = VInt int | VStr string

type_synonym Attrs = "(string \<times> gvalue) list"
type_synonym timestamp = int

record Log =
  Package :: string
  Level :: string
  Message :: string
  Time :: timestamp
  Attrs :: "Attrs option"
  ElapsedNano :: "64 word"

subsection \<open>Decimal numbers\<close>

definition digitChar :: "nat \<Rightarrow> char" where
  "digitChar d = ''0123456789'' ! d"

fun digits :: "nat \<Rightarrow> string" where
  "digits n = (if n < 10 then [digitChar n] else digits (n div 10) @ [digitChar (n mod 10)])"

declare digits.simps [simp del]

definition showInt :: "int \<Rightarrow> string" where
  "showInt i = (if i < 0 then CHR ''-'' # digits (nat (- i)) else digits (nat i))"

text \<open>The verb \<^verbatim>\<open>%v\<close> of package \<^verbatim>\<open>fmt\<close> on a modelled value.\<close>

fun fmt_v :: "gvalue \<Rightarrow> string" where
  "fmt_v (VInt i) = showInt i"
| "fmt_v (VStr s) = s"

subsection \<open>time.Duration.String\<close>

text \<open>
  The library writes the text from its end into a buffer; \<open>buf\<close> is the part written so
  far. \<^verbatim>\<open>fmtFrac\<close> writes the last \<open>prec\<close> decimal digits of \<open>v\<close> without trailing zeros,
  and the point when a digit was written; \<^verbatim>\<open>fmtInt\<close> writes \<open>v\<close> in decimal.
\<close>

fun fmtFrac_loop :: "nat \<Rightarrow> nat \<Rightarrow> bool \<Rightarrow> string \<Rightarrow> string \<times> nat \<times> bool" where
  "fmtFrac_loop 0 v print buf = (buf, v, print)"
| "fmtFrac_loop (Suc i) v print buf =
     (let digit = v mod 10;
          print = (print \<or> digit \<noteq> 0);
          buf = (if print then digitChar digit # buf else buf)
      in fmtFrac_loop i (v div 10) print buf)"

definition fmtFrac :: "string \<Rightarrow> nat \<Rightarrow> nat \<Rightarrow> string \<times> nat" where
  "fmtFrac buf v prec =
     (case fmtFrac_loop prec v False buf of
        (buf, v, print) \<Rightarrow> (if print then CHR ''.'' # buf else buf, v))"

definition fmtInt :: "string \<Rightarrow> nat \<Rightarrow> string" where
  "fmtInt buf v = digits v @ buf"

definition Duration_String :: "64 word \<Rightarrow> string" where
  "Duration_String d =
     (let neg = (d <s 0);
          u = unat (if neg then - d else d);
          buf =
            (if u < 1000000000 then
               (if u = 0 then ''0s''
                else
                  (let (buf, prec) =
                         (if u < 1000 then (''ns'', 0)
                          else if u < 1000000 then ([CHR 0xC2, CHR 0xB5, CHR ''s''], 3)
                          else (''ms'', 6));
                       (buf, u) = fmtFrac buf u prec
                   in fmtInt buf u))
             else
               (let (buf, u) = fmtFrac ''s'' u 9;
                    buf = fmtInt buf (u mod 60);
                    u = u div 60
                in if u > 0 then
                     (let buf = fmtInt (CHR ''m'' # buf) (u mod 60);
                          u = u div 60
                      in if u > 0 then fmtInt (CHR ''h'' # buf) u else buf)
                   else buf))
      in if neg then CHR ''-'' # buf else buf)"

subsection \<open>The wall clock\<close>

text \<open>
  \<^verbatim>\<open>time.Now()\<close> as its \<^verbatim>\<open>Format\<close> reads it: the hour, minute, second and nanosecond
  of the local time. The layout \<^verbatim>\<open>"15:04:05.000"\<close> prints two digits each for hour,
  minute and second, and the milliseconds in three digits, cut off, not rounded.
\<close>

record wallclock =
  hour :: nat
  minute :: nat
  second :: nat
  nanosecond :: nat

definition zeroPad :: "nat \<Rightarrow> string \<Rightarrow> string" where
  "zeroPad k s = replicate (k - length s) (CHR ''0'') @ s"

definition Time_Format :: "wallclock \<Rightarrow> string" where
  "Time_Format now =
     zeroPad 2 (digits (hour now)) @ '':'' @ zeroPad 2 (digits (minute now)) @ '':'' @
     zeroPad 2 (digits (second now)) @ ''.'' @ zeroPad 3 (digits (nanosecond now div 1000000))"

subsection \<open>What the formatter takes from outside\<close>

text \<open>
  The function \<^verbatim>\<open>colorFor\<close> and the strings \<^verbatim>\<open>red\<close> and \<^verbatim>\<open>reset\<close> are declared elsewhere
  in the package, and \<^verbatim>\<open>json.Marshal\<close> is Go's encoder: the formatter takes them as
  parameters. \<open>json_Marshal\<close> returns the bytes, or the text of the error (\<open>Inl\<close>).
\<close>

record externals =
  colorFor :: "string \<Rightarrow> string"
  red :: string
  reset :: string
  json_Marshal :: "Log \<Rightarrow> string + string"

subsection \<open>The formatter\<close>

text \<open>
  The methods below have a \<^verbatim>\<open>StandardWriter\<close> receiver in Go; only \<^verbatim>\<open>Format\<close> reads it.
  \<^verbatim>\<open>fmt.Sprintf\<close> with a constant format of \<^verbatim>\<open>%s\<close> verbs and string arguments is the
  concatenation written here.
\<close>

definition JSONFormat :: "externals \<Rightarrow> Log \<Rightarrow> string" where
  "JSONFormat ext log =
     (case json_Marshal ext log of
        Inl err \<Rightarrow> ''{ '' @ [CHR 0x22] @ ''logger-error'' @ [CHR 0x22] @ '': '' @
                   [CHR 0x22] @ err @ [CHR 0x22] @ '' }''
      | Inr str \<Rightarrow> str)"

fun PrettyAttrs_loop :: "Attrs \<Rightarrow> string \<Rightarrow> string" where
  "PrettyAttrs_loop [] result = result"
| "PrettyAttrs_loop ((key, val) # rest) result =
     PrettyAttrs_loop rest (result @ '' '' @ key @ ''='' @ fmt_v val)"

definition PrettyAttrs :: "Attrs option \<Rightarrow> string" where
  "PrettyAttrs attrs = (case attrs of None \<Rightarrow> [] | Some a \<Rightarrow> PrettyAttrs_loop a [])"

definition PrettyLabelExt :: "externals \<Rightarrow> Log \<Rightarrow> string" where
  "PrettyLabelExt ext log =
     (if Level log = ''ERROR'' then
        ''('' @ red ext @ ''!'' @ colorFor ext (Package log) @ '')''
      else if Level log = ''TIMER'' then
        ''('' @ reset ext @ Duration_String (ElapsedNano log) @ colorFor ext (Package log) @ '')''
      else [])"

definition PrettyLabel :: "externals \<Rightarrow> Log \<Rightarrow> string" where
  "PrettyLabel ext log =
     colorFor ext (Package log) @ Package log @ PrettyLabelExt ext log @ '':'' @ reset ext"

definition PrettyFormat :: "externals \<Rightarrow> wallclock \<Rightarrow> Log \<Rightarrow> string" where
  "PrettyFormat ext now log =
     Time_Format now @ '' '' @ PrettyLabel ext log @ '' '' @ Message log @
     PrettyAttrs (Attrs log)"

definition Format :: "StandardWriter \<Rightarrow> externals \<Rightarrow> wallclock \<Rightarrow> Log \<Rightarrow> string" where
  "Format standardWriter ext now log =
     (if ColorsEnabled standardWriter then PrettyFormat ext now log else JSONFormat ext log)"


section \<open>The facade\<close>




text \<open>The struct \<^verbatim>\<open>Logger\<close> and its constructor \<^verbatim>\<open>New\<close>.\<close>

record Logger =
  Name :: string





definition Logger_Timer :: "timestamp \<Rightarrow> Logger \<Rightarrow> Log" where
  "Logger_Timer now logger =
     \<lparr>Package = Name logger, Level = ''TIMER'', Message = [], Time = now,
      Attrs = None, ElapsedNano = 0\<rparr>"

section \<open>The settings parser as the specification words it\<close>

text \<open>
  The specification describes the parser by what it does with one item: cut the item in
  a name and an optional token, trim the name, resolve the token or take the default,
  and store the mask under the name, a later item overwriting an earlier one. \<open>settingsOf\<close>
  is that description, for any way \<open>cutAt\<close> of cutting an item.
\<close>

definition entryOf ::
  "(string \<Rightarrow> string \<times> string option) \<Rightarrow> OutputSettings \<Rightarrow> string \<Rightarrow> string \<times> OutputSettings"
  where
  "entryOf cutAt d item =
     (case cutAt item of
        (name, token) \<Rightarrow>
          (TrimSpace name, case token of None \<Rightarrow> d | Some t \<Rightarrow> parseVerbosityLevel t))"

definition settingsOf ::
  "(string \<Rightarrow> string \<times> string option) \<Rightarrow> string \<Rightarrow> OutputSettings \<Rightarrow>
   (string \<rightharpoonup> OutputSettings)" where
  "settingsOf cutAt input d =
     foldl (\<lambda>m item. case entryOf cutAt d item of (name, verbosity) \<Rightarrow> m(name \<mapsto> verbosity))
       Map.empty (Split input (CHR '',''))"

definition beforeAt :: "string \<Rightarrow> string" where
  "beforeAt s = takeWhile (\<lambda>c. c \<noteq> CHR ''@'') s"

definition afterAt :: "string \<Rightarrow> string" where
  "afterAt s = tl (dropWhile (\<lambda>c. c \<noteq> CHR ''@'') s)"

text \<open>
  The specification's cut: at the first \<^verbatim>\<open>"@"\<close>, the token being everything after it.
\<close>

definition spec_cut :: "string \<Rightarrow> string \<times> string option" where
  "spec_cut item =
     (beforeAt item, if CHR ''@'' \<in> set item then Some (afterAt item) else None)"

definition spec_parsePackageSettings ::
  "string \<Rightarrow> OutputSettings \<Rightarrow> (string \<rightharpoonup> OutputSettings)" where
  "spec_parsePackageSettings input d = settingsOf spec_cut input d"

text \<open>
  The cut the code makes: at every \<^verbatim>\<open>"@"\<close>, the token being the text between the first
  and the second one (to the end of the item when there is no second one).
\<close>

definition code_cut :: "string \<Rightarrow> string \<times> string option" where
  "code_cut item =
     (beforeAt item,
      if CHR ''@'' \<in> set item then Some (beforeAt (afterAt item)) else None)"

text \<open>The item that decides the entry of a name: the last one with that name.\<close>

definition lastItemFor :: "string \<Rightarrow> string \<Rightarrow> string option" where
  "lastItemFor input name =
     find (\<lambda>item. TrimSpace (beforeAt item) = name) (rev (Split input (CHR '','')))"

definition full :: OutputSettings where
  "full = \<lparr>Info = True, Error = True, Timer = True\<rparr>"

text \<open>
  The spellings of a word that differ only in the case of its ASCII letters, for a word
  given in lower case.
\<close>

fun caseVariants :: "string \<Rightarrow> string list" where
  "caseVariants [] = [[]]"
| "caseVariants (c # cs) =
     concat (map (\<lambda>t. [c # t, upperByte c # t]) (caseVariants cs))"

section \<open>Facts about the library functions\<close>

lemma Split_from_eq:
  "Split_from s sep cur =
     (cur @ takeWhile (\<lambda>c. c \<noteq> sep) s) #
     (if sep \<in> set s then Split_from (tl (dropWhile (\<lambda>c. c \<noteq> sep) s)) sep [] else [])"
  by (induction s arbitrary: cur) auto

lemma Split_at:
  "Split s (CHR ''@'') =
     beforeAt s # (if CHR ''@'' \<in> set s then Split (afterAt s) (CHR ''@'') else [])"
  unfolding Split_def beforeAt_def afterAt_def
  using Split_from_eq [of s "CHR ''@''" "[]"] by simp

lemma Split_not_Nil: "Split s sep \<noteq> []"
  unfolding Split_def using Split_from_eq [of s sep "[]"] by simp


lemma Split_Nil: "Split [] sep = [[]]"
  by (simp add: Split_def)

lemma Split_star_database:
  "Split ''*,database@timer'' (CHR '','') = [''*'', ''database@timer'']"
  by (simp add: Split_def)

lemma TrimSpace_star: "TrimSpace ''*'' = ''*''"
  by code_simp

lemma TrimSpace_Nil: "TrimSpace [] = []"
  by code_simp

lemma TrimSpace_database: "TrimSpace ''database'' = ''database''"
  by code_simp

lemma TrimSpace_db: "TrimSpace ''db'' = ''db''"
  by code_simp

section \<open>Facts about the parsers\<close>

lemma parseVerbosityLevel_mute_lower: "parseVerbosityLevel ''mute'' = \<lparr>Info = False, Error = False, Timer = False\<rparr>"
  by code_simp
lemma parseVerbosityLevel_error_lower: "parseVerbosityLevel ''error'' = \<lparr>Info = False, Error = True, Timer = False\<rparr>"
  by code_simp
lemma parseVerbosityLevel_timer_lower: "parseVerbosityLevel ''timer'' = \<lparr>Info = False, Error = True, Timer = True\<rparr>"
  by code_simp
lemma parseVerbosityLevel_Nil: "parseVerbosityLevel [] = \<lparr>Info = True, Error = True, Timer = True\<rparr>"
  by code_simp
lemma parseVerbosityLevel_error_x: "parseVerbosityLevel ''error@x'' = \<lparr>Info = True, Error = True, Timer = True\<rparr>"
  by code_simp

lemma parsePackageName_eq:
  "parsePackageName item =
     Inr (TrimSpace (beforeAt item),
          if CHR ''@'' \<in> set item then Some (parseVerbosityLevel (beforeAt (afterAt item)))
          else None)"
proof (cases "CHR ''@'' \<in> set item")
  case True
  have "Split (afterAt item) (CHR ''@'') =
          beforeAt (afterAt item) #
          (if CHR ''@'' \<in> set (afterAt item) then Split (afterAt (afterAt item)) (CHR ''@'')
           else [])"
    by (rule Split_at)
  then obtain rest where "Split (afterAt item) (CHR ''@'') = beforeAt (afterAt item) # rest"
    by blast
  with True have "Split item (CHR ''@'') = beforeAt item # beforeAt (afterAt item) # rest"
    using Split_at [of item] by simp
  with True show ?thesis
    by (simp add: parsePackageName_def)
next
  case False
  then have "Split item (CHR ''@'') = [beforeAt item]"
    using Split_at [of item] by simp
  with False show ?thesis
    by (simp add: parsePackageName_def)
qed

lemma parsePackageSettings_loop_eq:
  "parsePackageSettings_loop items d all =
     Inr (foldl (\<lambda>m item. case entryOf code_cut d item of (name, verbosity) \<Rightarrow> m(name \<mapsto> verbosity))
            all items)"
  by (induction items arbitrary: all)
    (simp_all add: parsePackageName_eq entryOf_def code_cut_def)

lemma parsePackageSettings_eq:
  "parsePackageSettings input d = Inr (settingsOf code_cut input d)"
  by (simp add: parsePackageSettings_def settingsOf_def parsePackageSettings_loop_eq)

lemma foldl_last_wins:
  "foldl (\<lambda>m item. case e item of (name, verbosity) \<Rightarrow> m(name \<mapsto> verbosity)) m0 items name =
     (case find (\<lambda>item. fst (e item) = name) (rev items) of
        None \<Rightarrow> m0 name
      | Some item \<Rightarrow> Some (snd (e item)))"
  by (induction items rule: rev_induct) (auto split: prod.splits)

lemma settingsOf_lookup:
  "settingsOf code_cut input d name =
     (case lastItemFor input name of
        None \<Rightarrow> None
      | Some item \<Rightarrow> Some (snd (entryOf code_cut d item)))"
proof -
  have "(\<lambda>item. fst (entryOf code_cut d item) = name) = (\<lambda>item. TrimSpace (beforeAt item) = name)"
    by (simp add: entryOf_def code_cut_def)
  then show ?thesis
    unfolding settingsOf_def lastItemFor_def
    by (simp add: foldl_last_wins [where e = "entryOf code_cut d"])
qed




lemma parsePackageSettings_star_database:
  "parsePackageSettings ''*,database@timer'' full =
     Inr [''*'' \<mapsto> full, ''database'' \<mapsto> \<lparr>Info = False, Error = True, Timer = True\<rparr>]"
  by (simp add: parsePackageSettings_eq settingsOf_def Split_star_database entryOf_def
      code_cut_def beforeAt_def afterAt_def TrimSpace_star TrimSpace_database
      parseVerbosityLevel_timer_lower)

lemma single_at_no_second:
  "count_list s c \<le> 1 \<Longrightarrow> c \<in> set s \<Longrightarrow> c \<notin> set (tl (dropWhile (\<lambda>x. x \<noteq> c) s))"
proof (induction s)
  case Nil
  then show ?case by simp
next
  case (Cons x xs)
  show ?case
  proof (cases "x = c")
    case True
    with Cons.prems have "count_list xs c = 0" by simp
    then have "c \<notin> set xs" by (simp add: count_list_0_iff)
    with True show ?thesis by simp
  next
    case False
    with Cons show ?thesis by simp
  qed
qed

lemma code_cut_single_at:
  assumes "count_list item (CHR ''@'') \<le> 1"
  shows "code_cut item = spec_cut item"
proof (cases "CHR ''@'' \<in> set item")
  case True
  with assms have "CHR ''@'' \<notin> set (afterAt item)"
    unfolding afterAt_def by (rule single_at_no_second)
  then have "beforeAt (afterAt item) = afterAt item"
    unfolding beforeAt_def by (auto simp: takeWhile_eq_all_conv)
  with True show ?thesis
    by (simp add: code_cut_def spec_cut_def)
next
  case False
  then show ?thesis
    by (simp add: code_cut_def spec_cut_def)
qed

lemma settingsOf_single_at:
  assumes "\<forall>item \<in> set (Split input (CHR '','')). count_list item (CHR ''@'') \<le> 1"
  shows "settingsOf code_cut input d = settingsOf spec_cut input d"
  unfolding settingsOf_def
proof (rule foldl_cong)
  fix m item
  assume "item \<in> set (Split input (CHR '',''))"
  with assms have "code_cut item = spec_cut item"
    by (simp add: code_cut_single_at)
  then show "(case entryOf code_cut d item of (name, verbosity) \<Rightarrow> m(name \<mapsto> verbosity)) =
             (case entryOf spec_cut d item of (name, verbosity) \<Rightarrow> m(name \<mapsto> verbosity))"
    by (simp add: entryOf_def)
qed simp_all

subsection \<open>White space around a token, and the case of its letters\<close>

lemma find_space_front:
  "asciiSpace c \<Longrightarrow> find (startsWith (c # s)) spaceRunes = Some [c]"
  unfolding asciiSpace_def by (elim disjE; simp add: spaceRunes_def startsWith_def)

lemma find_space_back:
  "asciiSpace c \<Longrightarrow> find (startsWith (c # s)) (map rev spaceRunes) = Some [c]"
  unfolding asciiSpace_def by (elim disjE; simp add: spaceRunes_def startsWith_def)

lemma spaceRunes_last:
  "asciiSpace c \<Longrightarrow> e \<in> set spaceRunes \<Longrightarrow> e = [c] \<or> last e \<noteq> c"
  unfolding asciiSpace_def by (elim disjE; simp add: spaceRunes_def; elim disjE; simp)

lemma trimLeftRunes_Nil: "trimLeftRunes runes [] = []"
proof -
  have "find (startsWith []) runes = None"
    by (simp add: find_None_iff startsWith_def)
  then show ?thesis
    by (subst trimLeftRunes.simps) simp
qed

lemma trimLeftRunes_space:
  "asciiSpace c \<Longrightarrow> trimLeftRunes spaceRunes (c # s) = trimLeftRunes spaceRunes s"
  by (subst trimLeftRunes.simps) (simp add: find_space_front)

lemma trimRightRunes_space:
  "asciiSpace c \<Longrightarrow> trimRightRunes spaceRunes (s @ [c]) = trimRightRunes spaceRunes s"
  unfolding trimRightRunes_def
  by (subst trimLeftRunes.simps) (simp add: find_space_back)

lemma trimRightRunes_Nil: "trimRightRunes runes [] = []"
  by (simp add: trimRightRunes_def trimLeftRunes_Nil)

lemma startsWith_snoc_space:
  assumes "asciiSpace c" and "e \<in> set spaceRunes" and "s \<noteq> []"
  shows "startsWith (s @ [c]) e = startsWith s e"
proof (cases "length e \<le> length s")
  case True
  then show ?thesis
    by (simp add: startsWith_def)
next
  case False
  then have "take (length e) s \<noteq> e"
    by (auto dest: arg_cong [where f = length])
  moreover have "take (length e) (s @ [c]) \<noteq> e"
  proof
    assume eq: "take (length e) (s @ [c]) = e"
    from False have "take (length e) (s @ [c]) = s @ [c]"
      by simp
    with eq have e: "e = s @ [c]"
      by simp
    then have "last e = c"
      by simp
    with assms(1,2) have "e = [c]"
      using spaceRunes_last by blast
    with e assms(3) show False
      by simp
  qed
  ultimately show ?thesis
    by (simp add: startsWith_def)
qed

lemma find_snoc_space:
  "asciiSpace c \<Longrightarrow> s \<noteq> [] \<Longrightarrow>
     find (startsWith (s @ [c])) spaceRunes = find (startsWith s) spaceRunes"
  by (rule find_cong) (simp_all add: startsWith_snoc_space)

lemma trimLeftRunes_snoc_space:
  assumes c: "asciiSpace c"
  shows "trimLeftRunes spaceRunes (s @ [c]) =
     (if trimLeftRunes spaceRunes s = [] then [] else trimLeftRunes spaceRunes s @ [c])"
proof (induction s rule: length_induct)
  case (1 s)
  show ?case
  proof (cases "s = []")
    case True
    with c show ?thesis
      by (simp add: trimLeftRunes_space trimLeftRunes_Nil)
  next
    case False
    show ?thesis
    proof (cases "find (startsWith s) spaceRunes")
      case None
      then have "trimLeftRunes spaceRunes s = s"
        by (subst trimLeftRunes.simps) simp
      moreover from None False c have "trimLeftRunes spaceRunes (s @ [c]) = s @ [c]"
        by (subst trimLeftRunes.simps) (simp add: find_snoc_space)
      ultimately show ?thesis
        using False by simp
    next
      case (Some e)
      then have "startsWith s e"
        by (auto simp: find_Some_iff)
      then have e: "e \<noteq> []" "length e \<le> length s"
        unfolding startsWith_def
        by (auto simp: min_def dest: arg_cong [where f = length] split: if_splits)
      with False have shorter: "length (drop (length e) s) < length s"
        by (cases e) auto
      from Some
      have left: "trimLeftRunes spaceRunes s = trimLeftRunes spaceRunes (drop (length e) s)"
        by (subst trimLeftRunes.simps) simp
      from Some False c
      have "trimLeftRunes spaceRunes (s @ [c]) =
            trimLeftRunes spaceRunes (drop (length e) (s @ [c]))"
        by (subst trimLeftRunes.simps) (simp add: find_snoc_space)
      with e
      have right: "trimLeftRunes spaceRunes (s @ [c]) =
            trimLeftRunes spaceRunes (drop (length e) s @ [c])"
        by simp
      from 1 shorter
      have "trimLeftRunes spaceRunes (drop (length e) s @ [c]) =
            (if trimLeftRunes spaceRunes (drop (length e) s) = [] then []
             else trimLeftRunes spaceRunes (drop (length e) s) @ [c])"
        by blast
      with left right show ?thesis
        by simp
    qed
  qed
qed

lemma TrimSpace_space_front: "asciiSpace c \<Longrightarrow> TrimSpace (c # s) = TrimSpace s"
  by (simp add: TrimSpace_def trimLeftRunes_space)

lemma TrimSpace_space_back: "asciiSpace c \<Longrightarrow> TrimSpace (s @ [c]) = TrimSpace s"
  by (simp add: TrimSpace_def trimLeftRunes_snoc_space trimRightRunes_space trimRightRunes_Nil)

lemma TrimSpace_front: "list_all asciiSpace lead \<Longrightarrow> TrimSpace (lead @ s) = TrimSpace s"
  by (induction lead) (simp_all add: TrimSpace_space_front)

lemma TrimSpace_back: "list_all asciiSpace trail \<Longrightarrow> TrimSpace (s @ trail) = TrimSpace s"
proof (induction trail rule: rev_induct)
  case Nil
  show ?case by simp
next
  case (snoc c trail)
  then have "asciiSpace c" and "TrimSpace (s @ trail) = TrimSpace s"
    by simp_all
  then have "TrimSpace ((s @ trail) @ [c]) = TrimSpace s"
    using TrimSpace_space_back [of c "s @ trail"] by simp
  then show ?case
    by simp
qed

lemma parseVerbosityLevel_padded:
  "list_all asciiSpace lead \<Longrightarrow> list_all asciiSpace trail \<Longrightarrow>
     parseVerbosityLevel (lead @ s @ trail) = parseVerbosityLevel s"
  by (simp add: parseVerbosityLevel_def TrimSpace_front TrimSpace_back)

lemma variants_mute:
  "list_all (\<lambda>t. parseVerbosityLevel t = \<lparr>Info = False, Error = False, Timer = False\<rparr>)
     (caseVariants ''mute'')"
  by code_simp

lemma variants_error:
  "list_all (\<lambda>t. parseVerbosityLevel t = \<lparr>Info = False, Error = True, Timer = False\<rparr>)
     (caseVariants ''error'')"
  by code_simp

lemma variants_timer:
  "list_all (\<lambda>t. parseVerbosityLevel t = \<lparr>Info = False, Error = True, Timer = True\<rparr>)
     (caseVariants ''timer'')"
  by code_simp

lemma parseVerbosityLevel_Mute_mixed:
  "parseVerbosityLevel ''Mute'' = \<lparr>Info = False, Error = False, Timer = False\<rparr>"
  by code_simp

section \<open>Facts about the writer and the facade\<close>

lemma NewStandardOutput_eq:
  "NewStandardOutput file env =
     Inr \<lparr>ColorsEnabled = True, Target = file,
          Settings = settingsOf code_cut
            (if Getenv env ''LOG'' \<noteq> [] then Getenv env ''LOG'' else ''*'')
            (parseVerbosityLevel (Getenv env ''LOG_LEVEL''))\<rparr>"
  by (simp add: NewStandardOutput_def parsePackageSettings_eq Let_def)





lemma digits_0: "digits 0 = ''0''"
  by (simp add: digits.simps [of 0] digitChar_def)

lemma Time_Format_midnight:
  "Time_Format \<lparr>hour = 0, minute = 0, second = 0, nanosecond = 0\<rparr> = ''00:00:00.000''"
  by (simp add: Time_Format_def zeroPad_def digits_0 numeral_2_eq_2)


lemma PrettyFormat_json_Marshal:
  "PrettyFormat (ext\<lparr>json_Marshal := m\<rparr>) now log = PrettyFormat ext now log"
  by (simp add: PrettyFormat_def PrettyLabel_def PrettyLabelExt_def)




section \<open>The claims\<close>

text \<open>
  C1. \<^verbatim>\<open>LoggerSettings\<close> resolves a name by precedence: the entry of the name when there is
  one; otherwise the entry of \<^verbatim>\<open>"*"\<close> when there is one; otherwise the mask with all
  flags false. So a mapping with only \<^verbatim>\<open>"*"\<close>, bound to the full mask, gives the full mask
  for every name, and the empty mapping gives the all-false mask for every name.
\<close>

theorem LoggerSettings_precedence:
  "(Settings w p = Some s \<longrightarrow> LoggerSettings w p = s) \<and>
   (Settings w p = None \<and> Settings w ''*'' = Some s \<longrightarrow> LoggerSettings w p = s) \<and>
   (Settings w p = None \<and> Settings w ''*'' = None \<longrightarrow>
      LoggerSettings w p = \<lparr>Info = False, Error = False, Timer = False\<rparr>) \<and>
   (Settings w = [''*'' \<mapsto> full] \<longrightarrow> LoggerSettings w p = full) \<and>
   (Settings w = Map.empty \<longrightarrow>
      LoggerSettings w p = \<lparr>Info = False, Error = False, Timer = False\<rparr>)"
  by (simp add: LoggerSettings_def muted_def)

theorem LoggerSettings_precedence_witness:
  "LoggerSettings \<lparr>ColorsEnabled = True, Target = 1,
      Settings = [''db'' \<mapsto> \<lparr>Info = False, Error = True, Timer = False\<rparr>, ''*'' \<mapsto> full]\<rparr> ''db''
     = \<lparr>Info = False, Error = True, Timer = False\<rparr> \<and>
   LoggerSettings \<lparr>ColorsEnabled = True, Target = 1,
      Settings = [''db'' \<mapsto> \<lparr>Info = False, Error = True, Timer = False\<rparr>, ''*'' \<mapsto> full]\<rparr> ''web''
     = full \<and>
   LoggerSettings \<lparr>ColorsEnabled = True, Target = 1,
      Settings = [''db'' \<mapsto> \<lparr>Info = False, Error = True, Timer = False\<rparr>]\<rparr> ''web''
     = \<lparr>Info = False, Error = False, Timer = False\<rparr> \<and>
   LoggerSettings \<lparr>ColorsEnabled = True, Target = 1, Settings = [''*'' \<mapsto> full]\<rparr> ''web'' = full \<and>
   LoggerSettings \<lparr>ColorsEnabled = True, Target = 1, Settings = Map.empty\<rparr> ''web''
     = \<lparr>Info = False, Error = False, Timer = False\<rparr>"
  using
    LoggerSettings_precedence [of "\<lparr>ColorsEnabled = True, Target = 1,
      Settings = [''db'' \<mapsto> \<lparr>Info = False, Error = True, Timer = False\<rparr>, ''*'' \<mapsto> full]\<rparr>"
      "''db''" "\<lparr>Info = False, Error = True, Timer = False\<rparr>"]
    LoggerSettings_precedence [of "\<lparr>ColorsEnabled = True, Target = 1,
      Settings = [''db'' \<mapsto> \<lparr>Info = False, Error = True, Timer = False\<rparr>, ''*'' \<mapsto> full]\<rparr>"
      "''web''" full]
    LoggerSettings_precedence [of "\<lparr>ColorsEnabled = True, Target = 1,
      Settings = [''db'' \<mapsto> \<lparr>Info = False, Error = True, Timer = False\<rparr>]\<rparr>"
      "''web''" full]
    LoggerSettings_precedence [of "\<lparr>ColorsEnabled = True, Target = 1, Settings = [''*'' \<mapsto> full]\<rparr>"
      "''web''" full]
    LoggerSettings_precedence [of "\<lparr>ColorsEnabled = True, Target = 1, Settings = Map.empty\<rparr>"
      "''web''" full]
  by simp

text \<open>
  C2. \<^verbatim>\<open>parseVerbosityLevel\<close> is a function of the trimmed, upper-cased token alone: MUTE
  gives no flag, ERROR gives Error only, TIMER gives Error and Timer, and every other
  token, the empty one too, gives all three flags. White space of ASCII before and after
  the token changes nothing, and every spelling of mute, error and timer in upper and
  lower case gives the mask of its word. The tokens \<^verbatim>\<open>"mute"\<close>, \<^verbatim>\<open>"MUTE"\<close> and
  \<^verbatim>\<open>" Mute "\<close> all give the mask with no flag.
\<close>

theorem parseVerbosityLevel_table:
  "parseVerbosityLevel v =
     (if ToUpper (TrimSpace v) = ''MUTE'' then \<lparr>Info = False, Error = False, Timer = False\<rparr>
      else if ToUpper (TrimSpace v) = ''ERROR'' then \<lparr>Info = False, Error = True, Timer = False\<rparr>
      else if ToUpper (TrimSpace v) = ''TIMER'' then \<lparr>Info = False, Error = True, Timer = True\<rparr>
      else \<lparr>Info = True, Error = True, Timer = True\<rparr>) \<and>
   (list_all asciiSpace lead \<and> list_all asciiSpace trail \<longrightarrow>
      parseVerbosityLevel (lead @ v @ trail) = parseVerbosityLevel v) \<and>
   list_all (\<lambda>t. parseVerbosityLevel t = \<lparr>Info = False, Error = False, Timer = False\<rparr>)
     (caseVariants ''mute'') \<and>
   list_all (\<lambda>t. parseVerbosityLevel t = \<lparr>Info = False, Error = True, Timer = False\<rparr>)
     (caseVariants ''error'') \<and>
   list_all (\<lambda>t. parseVerbosityLevel t = \<lparr>Info = False, Error = True, Timer = True\<rparr>)
     (caseVariants ''timer'') \<and>
   parseVerbosityLevel ''mute'' = \<lparr>Info = False, Error = False, Timer = False\<rparr> \<and>
   parseVerbosityLevel ''MUTE'' = \<lparr>Info = False, Error = False, Timer = False\<rparr> \<and>
   parseVerbosityLevel '' Mute '' = \<lparr>Info = False, Error = False, Timer = False\<rparr> \<and>
   parseVerbosityLevel ''debug'' = \<lparr>Info = True, Error = True, Timer = True\<rparr> \<and>
   parseVerbosityLevel [] = \<lparr>Info = True, Error = True, Timer = True\<rparr>"
proof -
  have table: "parseVerbosityLevel v =
     (if ToUpper (TrimSpace v) = ''MUTE'' then \<lparr>Info = False, Error = False, Timer = False\<rparr>
      else if ToUpper (TrimSpace v) = ''ERROR'' then \<lparr>Info = False, Error = True, Timer = False\<rparr>
      else if ToUpper (TrimSpace v) = ''TIMER'' then \<lparr>Info = False, Error = True, Timer = True\<rparr>
      else \<lparr>Info = True, Error = True, Timer = True\<rparr>)"
    by (simp add: parseVerbosityLevel_def Let_def)
  have upper: "parseVerbosityLevel ''MUTE'' = \<lparr>Info = False, Error = False, Timer = False\<rparr>"
    by code_simp
  have spaced: "parseVerbosityLevel '' Mute '' = \<lparr>Info = False, Error = False, Timer = False\<rparr>"
    by code_simp
  have other: "parseVerbosityLevel ''debug'' = \<lparr>Info = True, Error = True, Timer = True\<rparr>"
    by code_simp
  have padded: "list_all asciiSpace lead \<and> list_all asciiSpace trail \<longrightarrow>
      parseVerbosityLevel (lead @ v @ trail) = parseVerbosityLevel v"
    by (simp add: parseVerbosityLevel_padded)
  from table padded variants_mute variants_error variants_timer
    parseVerbosityLevel_mute_lower upper spaced other parseVerbosityLevel_Nil
  show ?thesis
    by (intro conjI)
qed

theorem parseVerbosityLevel_table_witness:
  "list_all asciiSpace [CHR 0x09, CHR '' ''] \<and> list_all asciiSpace [CHR '' '', CHR 0x0A] \<and>
   parseVerbosityLevel ([CHR 0x09, CHR '' ''] @ ''Mute'' @ [CHR '' '', CHR 0x0A]) =
     \<lparr>Info = False, Error = False, Timer = False\<rparr>"
proof -
  have lead: "list_all asciiSpace [CHR 0x09, CHR '' '']"
    and trail: "list_all asciiSpace [CHR '' '', CHR 0x0A]"
    by (simp_all add: asciiSpace_def)
  with parseVerbosityLevel_table [of "''Mute''" "[CHR 0x09, CHR '' '']" "[CHR '' '', CHR 0x0A]"]
  have "parseVerbosityLevel ([CHR 0x09, CHR '' ''] @ ''Mute'' @ [CHR '' '', CHR 0x0A]) =
      parseVerbosityLevel ''Mute''"
    by blast
  with lead trail show ?thesis
    by (simp add: parseVerbosityLevel_Mute_mixed)
qed

text \<open>
  C3. \<^verbatim>\<open>IsEnabled\<close> reads the flag of the level in the mask that \<^verbatim>\<open>LoggerSettings\<close>
  resolves for the name: INFO reads Info, ERROR reads Error, TIMER reads Timer, and any
  other level string gives false.
\<close>

theorem IsEnabled_levels:
  "IsEnabled w name ''INFO'' = Info (LoggerSettings w name) \<and>
   IsEnabled w name ''ERROR'' = Error (LoggerSettings w name) \<and>
   IsEnabled w name ''TIMER'' = Timer (LoggerSettings w name) \<and>
   (level \<noteq> ''INFO'' \<and> level \<noteq> ''ERROR'' \<and> level \<noteq> ''TIMER'' \<longrightarrow> \<not> IsEnabled w name level)"
  by (simp add: IsEnabled_def)

theorem IsEnabled_levels_witness:
  "IsEnabled \<lparr>ColorsEnabled = True, Target = 1, Settings = [''*'' \<mapsto> full]\<rparr> ''db'' ''INFO'' \<and>
   IsEnabled \<lparr>ColorsEnabled = True, Target = 1, Settings = [''*'' \<mapsto> full]\<rparr> ''db'' ''ERROR'' \<and>
   IsEnabled \<lparr>ColorsEnabled = True, Target = 1, Settings = [''*'' \<mapsto> full]\<rparr> ''db'' ''TIMER'' \<and>
   \<not> IsEnabled \<lparr>ColorsEnabled = True, Target = 1, Settings = [''*'' \<mapsto> full]\<rparr> ''db'' ''DEBUG'' \<and>
   \<not> IsEnabled \<lparr>ColorsEnabled = True, Target = 1, Settings = [''*'' \<mapsto> full]\<rparr> ''db'' ''info''"
  using
    IsEnabled_levels [of "\<lparr>ColorsEnabled = True, Target = 1, Settings = [''*'' \<mapsto> full]\<rparr>"
      "''db''" "''DEBUG''"]
    IsEnabled_levels [of "\<lparr>ColorsEnabled = True, Target = 1, Settings = [''*'' \<mapsto> full]\<rparr>"
      "''db''" "''info''"]
  by (simp add: LoggerSettings_def full_def)

text \<open>
  C4, as amended. \<^verbatim>\<open>parsePackageSettings\<close> never panics. It cuts the input at every
  comma and each item at every \<^verbatim>\<open>"@"\<close>: the name is the trimmed text before the first
  \<^verbatim>\<open>"@"\<close>, the token is the text between the first and the second \<^verbatim>\<open>"@"\<close> (what follows a
  second \<^verbatim>\<open>"@"\<close> is dropped), and an item without \<^verbatim>\<open>"@"\<close> takes the default mask. The
  entry of a name is decided by the last item with that name. The input
  \<^verbatim>\<open>"*,database@timer"\<close> with the full mask as default gives the full mask for \<^verbatim>\<open>"*"\<close> and
  Error and Timer for \<^verbatim>\<open>"database"\<close>. When no item has more than one \<^verbatim>\<open>"@"\<close>, the result
  is the one the specification describes, with the token being all that follows the
  first \<^verbatim>\<open>"@"\<close>.
\<close>

theorem parsePackageSettings_amended:
  "parsePackageSettings input d = Inr (settingsOf code_cut input d) \<and>
   settingsOf code_cut input d name =
     (case lastItemFor input name of
        None \<Rightarrow> None
      | Some item \<Rightarrow> Some (snd (entryOf code_cut d item))) \<and>
   parsePackageSettings ''*,database@timer'' full =
     Inr [''*'' \<mapsto> full, ''database'' \<mapsto> \<lparr>Info = False, Error = True, Timer = True\<rparr>] \<and>
   ((\<forall>item \<in> set (Split input (CHR '','')). count_list item (CHR ''@'') \<le> 1) \<longrightarrow>
      parsePackageSettings input d = Inr (spec_parsePackageSettings input d))"
  using parsePackageSettings_eq [of input d] settingsOf_lookup [of input d name]
    parsePackageSettings_star_database settingsOf_single_at [of input d]
  by (simp add: spec_parsePackageSettings_def)

theorem parsePackageSettings_amended_witness:
  "Split ''*,database@timer'' (CHR '','') = [''*'', ''database@timer''] \<and>
   count_list ''*'' (CHR ''@'') \<le> 1 \<and>
   count_list ''database@timer'' (CHR ''@'') \<le> 1 \<and>
   parsePackageSettings ''*,database@timer'' full =
     Inr (spec_parsePackageSettings ''*,database@timer'' full) \<and>
   parsePackageSettings ''*,database@timer'' full =
     Inr [''*'' \<mapsto> full, ''database'' \<mapsto> \<lparr>Info = False, Error = True, Timer = True\<rparr>]"
proof -
  have items: "Split ''*,database@timer'' (CHR '','') = [''*'', ''database@timer'']"
    by (rule Split_star_database)
  then have single: "\<forall>item \<in> set (Split ''*,database@timer'' (CHR '','')).
      count_list item (CHR ''@'') \<le> 1"
    by simp
  from parsePackageSettings_amended [of "''*,database@timer''" full "''database''"] single
  have "parsePackageSettings ''*,database@timer'' full =
          Inr (spec_parsePackageSettings ''*,database@timer'' full)"
    and "parsePackageSettings ''*,database@timer'' full =
          Inr [''*'' \<mapsto> full, ''database'' \<mapsto> \<lparr>Info = False, Error = True, Timer = True\<rparr>]"
    by blast+
  with items show ?thesis
    by simp
qed

text \<open>
  The claim as the specification words it fails on an item with two \<^verbatim>\<open>"@"\<close>: for
  \<^verbatim>\<open>"db@error@x"\<close> the code resolves the token \<^verbatim>\<open>"error"\<close>, the specification's cut at the
  first \<^verbatim>\<open>"@"\<close> resolves \<^verbatim>\<open>"error@x"\<close>, which is no known token and gives the full mask.
\<close>

theorem parsePackageSettings_second_at_counterexample:
  "parsePackageSettings ''db@error@x'' full =
     Inr [''db'' \<mapsto> \<lparr>Info = False, Error = True, Timer = False\<rparr>] \<and>
   spec_parsePackageSettings ''db@error@x'' full =
     [''db'' \<mapsto> \<lparr>Info = True, Error = True, Timer = True\<rparr>] \<and>
   parsePackageSettings ''db@error@x'' full \<noteq> Inr (spec_parsePackageSettings ''db@error@x'' full)"
proof -
  have code: "parsePackageSettings ''db@error@x'' full =
      Inr [''db'' \<mapsto> \<lparr>Info = False, Error = True, Timer = False\<rparr>]"
    by (simp add: parsePackageSettings_eq settingsOf_def Split_def entryOf_def
        code_cut_def beforeAt_def afterAt_def TrimSpace_db parseVerbosityLevel_error_lower)
  have spec: "spec_parsePackageSettings ''db@error@x'' full =
      [''db'' \<mapsto> \<lparr>Info = True, Error = True, Timer = True\<rparr>]"
    by (simp add: spec_parsePackageSettings_def settingsOf_def Split_def entryOf_def
        spec_cut_def beforeAt_def afterAt_def TrimSpace_db parseVerbosityLevel_error_x)
  have "[''db'' \<mapsto> \<lparr>Info = False, Error = True, Timer = False\<rparr>] \<noteq>
        [''db'' \<mapsto> \<lparr>Info = True, Error = True, Timer = True\<rparr>]"
    by (auto dest: map_upd_eqD1)
  with code spec show ?thesis
    by simp
qed

text \<open>
  C8. The empty input gives a mapping with one entry: the empty name, bound to the
  default mask.
\<close>

theorem parsePackageSettings_empty_input:
  "parsePackageSettings [] d = Inr [[] \<mapsto> d] \<and> dom [[] \<mapsto> d] = {[]}"
  by (simp add: parsePackageSettings_eq settingsOf_def Split_Nil entryOf_def code_cut_def
      beforeAt_def TrimSpace_Nil)







text \<open>
  C9. \<^verbatim>\<open>NewStandardOutput\<close> always returns a writer, with \<^verbatim>\<open>ColorsEnabled\<close> set; \<^verbatim>\<open>Format\<close>
  on it is \<^verbatim>\<open>PrettyFormat\<close>, and its result does not depend on the JSON encoder. In
  general \<^verbatim>\<open>Format\<close> is \<^verbatim>\<open>PrettyFormat\<close> when \<^verbatim>\<open>ColorsEnabled\<close> is set and \<^verbatim>\<open>JSONFormat\<close>
  only when it is not, which takes a writer built directly.
\<close>

theorem NewStandardOutput_never_JSON:
  "(\<exists>w. NewStandardOutput file env = Inr w \<and> ColorsEnabled w \<and>
      (\<forall>ext now log. Format w ext now log = PrettyFormat ext now log) \<and>
      (\<forall>ext now log m. Format w (ext\<lparr>json_Marshal := m\<rparr>) now log = Format w ext now log)) \<and>
   (ColorsEnabled standardWriter \<longrightarrow>
      Format standardWriter ext now log = PrettyFormat ext now log) \<and>
   (\<not> ColorsEnabled standardWriter \<longrightarrow>
      Format standardWriter ext now log = JSONFormat ext log)"
proof -
  let ?w = "\<lparr>ColorsEnabled = True, Target = file,
      Settings = settingsOf code_cut
        (if Getenv env ''LOG'' \<noteq> [] then Getenv env ''LOG'' else ''*'')
        (parseVerbosityLevel (Getenv env ''LOG_LEVEL''))\<rparr>"
  have new: "NewStandardOutput file env = Inr ?w"
    by (rule NewStandardOutput_eq)
  have pretty: "Format ?w ext now log = PrettyFormat ext now log" for ext now log
    by (simp add: Format_def)
  then have "Format ?w (ext\<lparr>json_Marshal := m\<rparr>) now log = Format ?w ext now log"
    for ext now log m
    by (simp add: PrettyFormat_json_Marshal)
  with new pretty
  have "\<exists>w. NewStandardOutput file env = Inr w \<and> ColorsEnabled w \<and>
      (\<forall>ext now log. Format w ext now log = PrettyFormat ext now log) \<and>
      (\<forall>ext now log m. Format w (ext\<lparr>json_Marshal := m\<rparr>) now log = Format w ext now log)"
    by (intro exI [of _ ?w]) simp
  then show ?thesis
    by (simp add: Format_def)
qed

theorem NewStandardOutput_never_JSON_witness:
  "ColorsEnabled \<lparr>ColorsEnabled = True, Target = 1, Settings = Map.empty\<rparr> \<and>
   Format \<lparr>ColorsEnabled = True, Target = 1, Settings = Map.empty\<rparr>
     \<lparr>colorFor = (\<lambda>p. []), red = [], reset = [], json_Marshal = (\<lambda>l. Inr ''{}'')\<rparr>
     \<lparr>hour = 0, minute = 0, second = 0, nanosecond = 0\<rparr>
     \<lparr>Package = ''db'', Level = ''INFO'', Message = ''hello'', Time = 0, Attrs = None,
      ElapsedNano = 0\<rparr> = ''00:00:00.000 db: hello'' \<and>
   Format \<lparr>ColorsEnabled = False, Target = 1, Settings = Map.empty\<rparr>
     \<lparr>colorFor = (\<lambda>p. []), red = [], reset = [], json_Marshal = (\<lambda>l. Inr ''{}'')\<rparr>
     \<lparr>hour = 0, minute = 0, second = 0, nanosecond = 0\<rparr>
     \<lparr>Package = ''db'', Level = ''INFO'', Message = ''hello'', Time = 0, Attrs = None,
      ElapsedNano = 0\<rparr> = ''{}''"
  using
    NewStandardOutput_never_JSON [of 1 Map.empty
      "\<lparr>ColorsEnabled = True, Target = 1, Settings = Map.empty\<rparr>"
      "\<lparr>colorFor = (\<lambda>p. []), red = [], reset = [], json_Marshal = (\<lambda>l. Inr ''{}'')\<rparr>"
      "\<lparr>hour = 0, minute = 0, second = 0, nanosecond = 0\<rparr>"
      "\<lparr>Package = ''db'', Level = ''INFO'', Message = ''hello'', Time = 0, Attrs = None,
        ElapsedNano = 0\<rparr>"]
    NewStandardOutput_never_JSON [of 1 Map.empty
      "\<lparr>ColorsEnabled = False, Target = 1, Settings = Map.empty\<rparr>"
      "\<lparr>colorFor = (\<lambda>p. []), red = [], reset = [], json_Marshal = (\<lambda>l. Inr ''{}'')\<rparr>"
      "\<lparr>hour = 0, minute = 0, second = 0, nanosecond = 0\<rparr>"
      "\<lparr>Package = ''db'', Level = ''INFO'', Message = ''hello'', Time = 0, Attrs = None,
        ElapsedNano = 0\<rparr>"]
  by (simp add: PrettyFormat_def PrettyLabel_def PrettyLabelExt_def PrettyAttrs_def
      Time_Format_midnight JSONFormat_def)



end
